theory Spec2Isabelle
  imports Main "HOL-Library.Word" "HOL-Library.Sublist"
begin

section \<open>Python values\<close>

text \<open>
  A Python \<open>str\<close> is a sequence of Unicode code points; it is modelled as the list of
  their numbers. \<open>str\<close> turns an ASCII literal of the source into that list.
\<close>

type_synonym pystr = "nat list"

definition str :: "string \<Rightarrow> pystr" where
  "str s = map of_char s"

type_synonym bytes = "8 word list"

text \<open>
  \<open>str.isspace\<close> for one code point: the characters CPython's
  \<open>_PyUnicode_IsWhitespace\<close> accepts, which are the ones \<open>str.strip()\<close> removes.
\<close>

definition isspace :: "nat \<Rightarrow> bool" where
  "isspace c \<longleftrightarrow>
     (0x09 \<le> c \<and> c \<le> 0x0D) \<or> (0x1C \<le> c \<and> c \<le> 0x20) \<or> c = 0x85 \<or> c = 0xA0 \<or>
     c = 0x1680 \<or> (0x2000 \<le> c \<and> c \<le> 0x200A) \<or> c = 0x2028 \<or> c = 0x2029 \<or>
     c = 0x202F \<or> c = 0x205F \<or> c = 0x3000"

definition lstrip :: "pystr \<Rightarrow> pystr" where
  "lstrip s = dropWhile isspace s"

definition rstrip :: "pystr \<Rightarrow> pystr" where
  "rstrip s = rev (dropWhile isspace (rev s))"

definition strip :: "pystr \<Rightarrow> pystr" where
  "strip s = rstrip (lstrip s)"

text \<open>
  What UTF-8 can encode: a string of Unicode scalar values, that is, one without a
  surrogate code point. (A Python \<open>str\<close> can hold a lone surrogate, for instance
  from the JSON escape of U+D800.)
\<close>

definition scalar_value :: "nat \<Rightarrow> bool" where
  "scalar_value c \<longleftrightarrow> c < 0xD800 \<or> (0xDFFF < c \<and> c < 0x110000)"

definition utf8_encodable :: "pystr \<Rightarrow> bool" where
  "utf8_encodable s = list_all scalar_value s"

text \<open>
  The exceptions that occur. \<open>HTTPException\<close> is the one the endpoint raises itself;
  \<open>IndexError\<close>, \<open>AttributeError\<close>, \<open>KeyError\<close>, \<open>TypeError\<close> and
  \<open>UnicodeEncodeError\<close> are raised by the interpreter and its library; \<open>ExternalError\<close> stands for any \<open>Exception\<close> raised inside the client
  library or by the operating system (network failure, quota, malformed response,
  failed write), with its message.
\<close>

datatype exn =
    HTTPException nat pystr
  | IndexError
  | AttributeError
  | KeyError pystr
  | TypeError
  | UnicodeEncodeError
  | ExternalError pystr

text \<open>
  A dict literal is the list of its items in source order; \<open>dict_get d k v\<close> is
  \<open>d.get(k, v)\<close> and \<open>dict_contains d k\<close> is \<open>k in d\<close>.
\<close>

definition dict_get :: "('k \<times> 'v) list \<Rightarrow> 'k \<Rightarrow> 'v \<Rightarrow> 'v" where
  "dict_get d k v = (case map_of d k of None \<Rightarrow> v | Some x \<Rightarrow> x)"

definition dict_contains :: "('k \<times> 'v) list \<Rightarrow> 'k \<Rightarrow> bool" where
  "dict_contains d k \<longleftrightarrow> map_of d k \<noteq> None"

section \<open>app/main.py\<close>

subsection \<open>Persona tables\<close>

definition PERSONA_NAMES :: "(pystr \<times> pystr) list" where
  "PERSONA_NAMES =
    [(str ''boer_commando_jan_du_preez'', str ''Jan du Preez''),
     (str ''afrikaner_woman_camp_anna_van_der_merwe'', str ''Anna van der Merwe''),
     (str ''black_man_with_boers_daniel_kgoathe'', str ''Daniel Kgoathe''),
     (str ''british_soldier_arthur_jennings'', str ''Private Arthur Jennings'')]"

definition voice_map :: "(pystr \<times> pystr) list" where
  "voice_map =
    [(str ''boer_commando_jan_du_preez'', str ''onyx''),
     (str ''afrikaner_woman_camp_anna_van_der_merwe'', str ''coral''),
     (str ''black_man_with_boers_daniel_kgoathe'', str ''alloy''),
     (str ''british_soldier_arthur_jennings'', str ''verse'')]"

subsection \<open>Request, response, collaborators and the world\<close>

record ChatInput =
  persona_id :: pystr
  message :: pystr
  tts :: bool

record ChatOutput =
  reply :: pystr
  audio_url :: "pystr option"
  avatar :: "unit option"

text \<open>A chat message is its role and its content.\<close>

datatype chat_message = Message pystr pystr

text \<open>
  What the completion service sends back: the list \<open>choices\<close>, each choice being the
  \<open>content\<close> of its message, which the client library types as optional.
\<close>

record chat_completion =
  choices :: "pystr option list"

text \<open>
  What the speech service sends back: the chunks of the body, and the message of the
  exception that ends the stream early, if any. A write that fails part-way is the same
  observation (some chunks in the file, then an exception).
\<close>

record streamed_response =
  chunks :: "bytes list"
  abort :: "pystr option"

text \<open>
  The surroundings of one request: how the two hosted services answer a call with given
  arguments (\<open>Inl m\<close>: the client library raises an exception with message \<open>m\<close>), the
  value of \<open>uuid.uuid4().hex\<close> drawn in this request, and the message of the exception
  raised on opening a file of the media directory for writing, if any.
\<close>

record env =
  completions_create :: "pystr \<Rightarrow> chat_message list \<Rightarrow> pystr + chat_completion"
  speech_create :: "pystr \<Rightarrow> pystr \<Rightarrow> pystr \<Rightarrow> pystr + streamed_response"
  uuid4_hex :: pystr
  open_wb :: "pystr \<Rightarrow> pystr option"

text \<open>The outbound service calls, with their keyword arguments in source order.\<close>

datatype call =
    ChatCompletionsCreate pystr "chat_message list"
  | SpeechCreate pystr pystr pystr

text \<open>
  What reaches the console: a \<open>print\<close> call with its arguments (a string or an
  exception object), or the traceback of an exception. The console is taken to accept
  whatever is printed.
\<close>

datatype printable = Text pystr | Exc exn

datatype console_line = Printed "printable list" | Traceback exn

text \<open>
  The state a request can change: the files of \<open>MEDIA_DIR\<close> by name, the outbound
  calls made so far, and the console.
\<close>

record world =
  media :: "pystr \<rightharpoonup> bytes"
  outbound :: "call list"
  console :: "console_line list"

subsection \<open>Helpers\<close>

definition system_prompt :: "pystr \<Rightarrow> pystr" where
  "system_prompt persona_name =
     str ''You are '' @ persona_name @
     str '', a historical persona from the Anglo-Boer War (1899'' @ [0x2013] @ str ''1902). '' @
     str ''Answer in the first person. For Afrikaans personas, reply in natural early 1900s Afrikaans.''"

definition generate_chat_reply :: "env \<Rightarrow> pystr \<Rightarrow> pystr \<Rightarrow> world \<Rightarrow> (exn + pystr) \<times> world" where
  "generate_chat_reply e pid msg w =
     (let persona_name = dict_get PERSONA_NAMES pid (str ''Unknown persona'');
          messages = [Message (str ''system'') (system_prompt persona_name),
                      Message (str ''user'') msg];
          w1 = w\<lparr>outbound := outbound w @ [ChatCompletionsCreate (str ''gpt-4o-mini'') messages]\<rparr>
      in case completions_create e (str ''gpt-4o-mini'') messages of
           Inl m \<Rightarrow> (Inl (ExternalError m), w1)
         | Inr chat \<Rightarrow>
             (case choices chat of
                [] \<Rightarrow> (Inl IndexError, w1)
              | c # _ \<Rightarrow>
                  (case c of
                     None \<Rightarrow> (Inl AttributeError, w1)
                   | Some content \<Rightarrow> (Inr (strip content), w1))))"

text \<open>
  \<open>response.stream_to_file(path)\<close> of the client library: the file is opened for
  writing (created or truncated), each chunk of the body is appended, and an exception
  that ends the stream is raised after the chunks before it are in the file.
\<close>

definition stream_to_file :: "env \<Rightarrow> streamed_response \<Rightarrow> pystr \<Rightarrow> world \<Rightarrow> (exn + unit) \<times> world" where
  "stream_to_file e response name w =
     (case open_wb e name of
        Some m \<Rightarrow> (Inl (ExternalError m), w)
      | None \<Rightarrow>
          (let w1 = w\<lparr>media := (media w)(name \<mapsto> concat (chunks response))\<rparr>
           in case abort response of
                Some m \<Rightarrow> (Inl (ExternalError m), w1)
              | None \<Rightarrow> (Inr (), w1)))"

text \<open>
  The body of the \<open>try\<close> statement of \<open>synthesize_tts\<close>: the streaming call, the
  write to \<open>MEDIA_DIR / name\<close>, and the URL path built from \<open>out_path.name\<close>.
\<close>

definition tts_try :: "env \<Rightarrow> pystr \<Rightarrow> pystr \<Rightarrow> pystr \<Rightarrow> world \<Rightarrow> (exn + pystr) \<times> world" where
  "tts_try e voice text name w =
     (let w1 = w\<lparr>outbound := outbound w @ [SpeechCreate (str ''gpt-4o-mini-tts'') voice text]\<rparr>
      in case speech_create e (str ''gpt-4o-mini-tts'') voice text of
           Inl m \<Rightarrow> (Inl (ExternalError m), w1)
         | Inr response \<Rightarrow>
             (case stream_to_file e response name w1 of
                (Inl err, w2) \<Rightarrow> (Inl err, w2)
              | (Inr _, w2) \<Rightarrow> (Inr (str ''/media/'' @ name), w2)))"

text \<open>
  \<open>synthesize_tts\<close>: the voice, the file name \<open>uuid4().hex + ".wav"\<close>, the \<open>try\<close> body,
  and the \<open>except Exception\<close> branch, which prints one line and the traceback and
  returns \<open>None\<close>.
\<close>

definition synthesize_tts :: "env \<Rightarrow> pystr \<Rightarrow> pystr \<Rightarrow> world \<Rightarrow> pystr option \<times> world" where
  "synthesize_tts e text pid w =
     (let voice = dict_get voice_map pid (str ''onyx'');
          name = uuid4_hex e @ str ''.wav''
      in case tts_try e voice text name w of
           (Inr url, w1) \<Rightarrow> (Some url, w1)
         | (Inl err, w1) \<Rightarrow>
             (None, w1\<lparr>console := console w1 @
                       [Printed [Text (str ''[TTS FAILED]''), Exc err], Traceback err]\<rparr>))"

subsection \<open>Routes\<close>

definition chat_endpoint :: "env \<Rightarrow> ChatInput \<Rightarrow> world \<Rightarrow> (exn + ChatOutput) \<times> world" where
  "chat_endpoint e inp w =
     (if \<not> dict_contains PERSONA_NAMES (persona_id inp)
      then (Inl (HTTPException 400 (str ''Unknown persona_id'')), w)
      else
        (case generate_chat_reply e (persona_id inp) (message inp) w of
           (Inl err, w1) \<Rightarrow> (Inl err, w1)
         | (Inr r, w1) \<Rightarrow>
             (let (url, w2) = (if tts inp then synthesize_tts e r (persona_id inp) w1 else (None, w1))
              in (Inr \<lparr>reply = r, audio_url = url, avatar = None\<rparr>, w2))))"

text \<open>
  The status line the web framework sends for what the route function did. A returned
  value is sent as UTF-8 JSON with status 200; when one of its strings cannot be
  encoded the framework fails while building the response and answers 500. An
  \<open>HTTPException\<close> gives its own status, any other exception that leaves the route
  function gives 500.
\<close>

fun status_code :: "exn + ChatOutput \<Rightarrow> nat" where
  "status_code (Inr out) =
     (if utf8_encodable (reply out) \<and>
         (case audio_url out of None \<Rightarrow> True | Some url \<Rightarrow> utf8_encodable url)
      then 200 else 500)"
| "status_code (Inl (HTTPException code detail)) = code"
| "status_code (Inl err) = 500"

definition is_speech_call :: "call \<Rightarrow> bool" where
  "is_speech_call c = (case c of SpeechCreate m v t \<Rightarrow> True | _ \<Rightarrow> False)"

text \<open>The two outbound calls as the helpers make them, by persona name and by voice.\<close>

definition chat_call :: "pystr \<Rightarrow> pystr \<Rightarrow> call" where
  "chat_call persona_name msg =
     ChatCompletionsCreate (str ''gpt-4o-mini'')
       [Message (str ''system'') (system_prompt persona_name), Message (str ''user'') msg]"

definition speech_call :: "pystr \<Rightarrow> pystr \<Rightarrow> call" where
  "speech_call voice text = SpeechCreate (str ''gpt-4o-mini-tts'') voice text"

text \<open>The calls a request added to the \<open>n\<close> that were there before it.\<close>

definition calls_since :: "nat \<Rightarrow> world \<Rightarrow> call list" where
  "calls_since n w = drop n (outbound w)"

subsection \<open>Sample requests and surroundings\<close>

definition world0 :: world where
  "world0 = \<lparr>media = Map.empty, outbound = [], console = []\<rparr>"

definition env_ok :: env where
  "env_ok =
     \<lparr>completions_create = (\<lambda>model messages. Inr \<lparr>choices = [Some (str '' Goeie dag. '')]\<rparr>),
      speech_create = (\<lambda>model voice text. Inr \<lparr>chunks = [[0x52, 0x49], [0x46, 0x46]], abort = None\<rparr>),
      uuid4_hex = str ''0123456789abcdef0123456789abcdef'',
      open_wb = (\<lambda>name. None)\<rparr>"

definition env_again :: env where
  "env_again = env_ok\<lparr>uuid4_hex := str ''fedcba9876543210fedcba9876543210''\<rparr>"

definition env_down :: env where
  "env_down = env_ok\<lparr>completions_create := (\<lambda>model messages. Inl (str ''connection refused''))\<rparr>"

definition env_blank :: env where
  "env_blank = env_ok\<lparr>completions_create := (\<lambda>model messages. Inr \<lparr>choices = [Some (str ''   '')]\<rparr>)\<rparr>"

definition env_quota :: env where
  "env_quota = env_ok\<lparr>speech_create := (\<lambda>model voice text. Inl (str ''quota exceeded''))\<rparr>"

definition env_cut :: env where
  "env_cut = env_ok\<lparr>speech_create :=
     (\<lambda>model voice text. Inr \<lparr>chunks = [[0x52, 0x49]], abort = Some (str ''connection reset'')\<rparr>)\<rparr>"

definition env_lone :: env where
  "env_lone = env_quota\<lparr>completions_create := (\<lambda>model messages. Inr \<lparr>choices = [Some [0xD800]]\<rparr>)\<rparr>"

definition jan_hello :: ChatInput where
  "jan_hello = \<lparr>persona_id = str ''boer_commando_jan_du_preez'', message = str ''Hello'', tts = True\<rparr>"

definition jan_silent :: ChatInput where
  "jan_silent = jan_hello\<lparr>tts := False\<rparr>"

definition napoleon_hello :: ChatInput where
  "napoleon_hello = jan_hello\<lparr>persona_id := str ''napoleon''\<rparr>"


text \<open>A media directory where the file name of the token of \<open>env_ok\<close> is already taken.\<close>

definition world_taken :: world where
  "world_taken = world0\<lparr>media := [str ''0123456789abcdef0123456789abcdef.wav'' \<mapsto> [0x00]]\<rparr>"

section \<open>tools/update_personas.py\<close>

text \<open>
  The script works on the document that \<open>json.load\<close> returns and hands the changed
  document to \<open>json.dump\<close>; it is modelled on that parsed document. A JSON object is a
  \<open>dict\<close>, kept as the list of its items in insertion order; a \<open>float\<close> is never
  inspected by the script and stays opaque.
\<close>

typedecl pyfloat

datatype json =
    JNull
  | JBool bool
  | JInt int
  | JFloat pyfloat
  | JString pystr
  | JArray "json list"
  | JObject "(pystr \<times> json) list"

text \<open>\<open>d[k] = v\<close> on a \<open>dict\<close>: an existing key keeps its place, a new key goes last.\<close>

fun dict_set :: "('k \<times> 'v) list \<Rightarrow> 'k \<Rightarrow> 'v \<Rightarrow> ('k \<times> 'v) list" where
  "dict_set [] k v = [(k, v)]"
| "dict_set ((k', v') # kvs) k v =
     (if k' = k then (k', v) # kvs else (k', v') # dict_set kvs k v)"

text \<open>
  \<open>x[k]\<close> and \<open>x[k] = v\<close> for a string \<open>k\<close>: a \<open>dict\<close> looks the key up
  (\<open>KeyError\<close> when it is missing); a list, a string, a number, a truth value or
  \<open>None\<close> raises \<open>TypeError\<close>.
\<close>

fun getitem :: "json \<Rightarrow> pystr \<Rightarrow> exn + json" where
  "getitem (JObject kvs) k = (case map_of kvs k of None \<Rightarrow> Inl (KeyError k) | Some v \<Rightarrow> Inr v)"
| "getitem other k = Inl TypeError"

fun setitem :: "json \<Rightarrow> pystr \<Rightarrow> json \<Rightarrow> exn + json" where
  "setitem (JObject kvs) k v = Inr (JObject (dict_set kvs k v))"
| "setitem other k v = Inl TypeError"

text \<open>
  \<open>for p in x\<close>: a list yields its elements, a \<open>dict\<close> its keys, a string its
  characters; anything else is not iterable.
\<close>

fun iterate :: "json \<Rightarrow> exn + json list" where
  "iterate (JArray xs) = Inr xs"
| "iterate (JObject kvs) = Inr (map (\<lambda>(k, v). JString k) kvs)"
| "iterate (JString s) = Inr (map (\<lambda>c. JString [c]) s)"
| "iterate other = Inl TypeError"

definition keep_ids :: "pystr set" where
  "keep_ids =
     {str ''british_soldier_arthur_jennings'',
      str ''boer_commando_jan_du_preez'',
      str ''afrikaner_woman_camp_anna_van_der_merwe'',
      str ''black_man_with_boers_daniel_kgoathe''}"

text \<open>
  \<open>v in keep_ids\<close>: the set hashes \<open>v\<close> first, so a list or a \<open>dict\<close> raises
  \<open>TypeError\<close>; a string is found if it is one of the four, and nothing else equals a
  string.
\<close>

fun in_keep_ids :: "json \<Rightarrow> exn + bool" where
  "in_keep_ids (JString s) = Inr (s \<in> keep_ids)"
| "in_keep_ids (JArray xs) = Inl TypeError"
| "in_keep_ids (JObject kvs) = Inl TypeError"
| "in_keep_ids other = Inr False"

text \<open>
  The list comprehension \<open>[p for p in ... if p["persona_id"] in keep_ids]\<close>, element
  by element; the first exception ends it.
\<close>

fun comprehension :: "json list \<Rightarrow> exn + json list" where
  "comprehension [] = Inr []"
| "comprehension (p # ps) =
     (case getitem p (str ''persona_id'') of
        Inl err \<Rightarrow> Inl err
      | Inr v \<Rightarrow>
          (case in_keep_ids v of
             Inl err \<Rightarrow> Inl err
           | Inr b \<Rightarrow>
               (case comprehension ps of
                  Inl err \<Rightarrow> Inl err
                | Inr kept \<Rightarrow> Inr (if b then p # kept else kept))))"

text \<open>Line 16 of the script: the assignment to \<open>corpus["personas"]\<close>.\<close>

definition filter_personas :: "json \<Rightarrow> exn + json" where
  "filter_personas corpus =
     (case getitem corpus (str ''personas'') of
        Inl err \<Rightarrow> Inl err
      | Inr personas \<Rightarrow>
          (case iterate personas of
             Inl err \<Rightarrow> Inl err
           | Inr ps \<Rightarrow>
               (case comprehension ps of
                  Inl err \<Rightarrow> Inl err
                | Inr kept \<Rightarrow> setitem corpus (str ''personas'') (JArray kept))))"

text \<open>
  Lines 17 and 18: \<open>open(DATA, "w", encoding="utf-8")\<close> empties the file, and
  \<open>json.dump(corpus, f, ensure_ascii=False, indent=2)\<close> writes the document piece by
  piece, every string as it is (only quotes, backslashes and control characters are
  escaped). A key or a string value with a surrogate cannot be encoded: the write of
  that piece raises \<open>UnicodeEncodeError\<close> and the file keeps the pieces before it.
  \<open>dumpable\<close> says that no string of the document is of that kind. Numbers, truth
  values and \<open>None\<close> are always written.
\<close>

fun dumpable :: "json \<Rightarrow> bool" where
  "dumpable (JString s) = utf8_encodable s"
| "dumpable (JArray xs) = list_all dumpable xs"
| "dumpable (JObject kvs) = list_all (\<lambda>kv. utf8_encodable (fst kv) \<and> dumpable (snd kv)) kvs"
| "dumpable other = True"

text \<open>
  What the file holds: a document, or the beginning of an output that broke off, which
  is not a JSON document.
\<close>

datatype stored_file = Document json | Fragment

text \<open>
  The script as a whole, from the stored document (what \<open>json.load\<close> returns on line
  7) to the exception it ends with, if any, and the content of the file afterwards. An
  exception on line 16 comes before the file is opened for writing and leaves it as it
  was. The file system is taken to accept the write.
\<close>

definition update_personas :: "json \<Rightarrow> exn option \<times> stored_file" where
  "update_personas stored =
     (case filter_personas stored of
        Inl err \<Rightarrow> (Some err, Document stored)
      | Inr corpus \<Rightarrow>
          (if dumpable corpus then (None, Document corpus)
           else (Some UnicodeEncodeError, Fragment)))"






section \<open>Properties\<close>

lemma str_eq_iff [simp]: "str a = str b \<longleftrightarrow> a = b"
  by (simp add: str_def inj_on_def inj_map_eq_map)

subsection \<open>Outbound calls of the helpers\<close>

lemma generate_outbound:
  "outbound (snd (generate_chat_reply e pid msg w)) =
     outbound w @ [chat_call (dict_get PERSONA_NAMES pid (str ''Unknown persona'')) msg]"
  by (simp add: generate_chat_reply_def chat_call_def Let_def split: sum.splits list.splits option.splits)

lemma tts_try_outbound:
  "outbound (snd (tts_try e voice text name w)) = outbound w @ [speech_call voice text]"
  by (simp add: tts_try_def stream_to_file_def speech_call_def Let_def
      split: sum.splits option.splits prod.splits)

lemma synthesize_outbound:
  "outbound (snd (synthesize_tts e text pid w)) =
     outbound w @ [speech_call (dict_get voice_map pid (str ''onyx'')) text]"
  using tts_try_outbound [of e "dict_get voice_map pid (str ''onyx'')" "text" "uuid4_hex e @ str ''.wav''" w]
  by (auto simp add: synthesize_tts_def Let_def split: sum.splits prod.splits)

lemma registry_miss:
  "\<not> dict_contains PERSONA_NAMES pid \<Longrightarrow>
     dict_get PERSONA_NAMES pid d = d \<and> dict_get voice_map pid d' = d'"
  by (auto simp: dict_contains_def dict_get_def PERSONA_NAMES_def voice_map_def split: if_splits)

text \<open>
  C8. For a persona id outside the registry the reply generator asks the completion
  service under the name "Unknown persona" and the synthesizer asks for the voice
  "onyx"; for each of the four registered ids they use that persona's display name and
  voice.
\<close>

theorem persona_lookups:
  "(\<not> dict_contains PERSONA_NAMES pid \<longrightarrow>
      outbound (snd (generate_chat_reply e pid msg w)) = outbound w @ [chat_call (str ''Unknown persona'') msg] \<and>
      outbound (snd (synthesize_tts e t pid w)) = outbound w @ [speech_call (str ''onyx'') t]) \<and>
   outbound (snd (generate_chat_reply e (str ''boer_commando_jan_du_preez'') msg w)) =
      outbound w @ [chat_call (str ''Jan du Preez'') msg] \<and>
   outbound (snd (synthesize_tts e t (str ''boer_commando_jan_du_preez'') w)) =
      outbound w @ [speech_call (str ''onyx'') t] \<and>
   outbound (snd (generate_chat_reply e (str ''afrikaner_woman_camp_anna_van_der_merwe'') msg w)) =
      outbound w @ [chat_call (str ''Anna van der Merwe'') msg] \<and>
   outbound (snd (synthesize_tts e t (str ''afrikaner_woman_camp_anna_van_der_merwe'') w)) =
      outbound w @ [speech_call (str ''coral'') t] \<and>
   outbound (snd (generate_chat_reply e (str ''black_man_with_boers_daniel_kgoathe'') msg w)) =
      outbound w @ [chat_call (str ''Daniel Kgoathe'') msg] \<and>
   outbound (snd (synthesize_tts e t (str ''black_man_with_boers_daniel_kgoathe'') w)) =
      outbound w @ [speech_call (str ''alloy'') t] \<and>
   outbound (snd (generate_chat_reply e (str ''british_soldier_arthur_jennings'') msg w)) =
      outbound w @ [chat_call (str ''Private Arthur Jennings'') msg] \<and>
   outbound (snd (synthesize_tts e t (str ''british_soldier_arthur_jennings'') w)) =
      outbound w @ [speech_call (str ''verse'') t]"
proof -
  have known: "dict_get PERSONA_NAMES (str ''boer_commando_jan_du_preez'') d = str ''Jan du Preez''"
    "dict_get voice_map (str ''boer_commando_jan_du_preez'') d = str ''onyx''"
    "dict_get PERSONA_NAMES (str ''afrikaner_woman_camp_anna_van_der_merwe'') d = str ''Anna van der Merwe''"
    "dict_get voice_map (str ''afrikaner_woman_camp_anna_van_der_merwe'') d = str ''coral''"
    "dict_get PERSONA_NAMES (str ''black_man_with_boers_daniel_kgoathe'') d = str ''Daniel Kgoathe''"
    "dict_get voice_map (str ''black_man_with_boers_daniel_kgoathe'') d = str ''alloy''"
    "dict_get PERSONA_NAMES (str ''british_soldier_arthur_jennings'') d = str ''Private Arthur Jennings''"
    "dict_get voice_map (str ''british_soldier_arthur_jennings'') d = str ''verse''" for d
    by (simp_all add: dict_get_def PERSONA_NAMES_def voice_map_def)
  show ?thesis
    by (simp add: generate_outbound synthesize_outbound known registry_miss)
qed

theorem persona_lookups_witness:
  "\<not> dict_contains PERSONA_NAMES (str ''napoleon'') \<and>
   outbound (snd (generate_chat_reply env_ok (str ''napoleon'') (str ''Hello'') world0)) =
     [chat_call (str ''Unknown persona'') (str ''Hello'')] \<and>
   outbound (snd (synthesize_tts env_ok (str ''Bonjour'') (str ''napoleon'') world0)) =
     [speech_call (str ''onyx'') (str ''Bonjour'')]"
  using persona_lookups [of "str ''napoleon''" env_ok "str ''Hello''" world0 "str ''Bonjour''"]
  by (simp add: dict_contains_def PERSONA_NAMES_def world0_def)

text \<open>
  C1. A chat request whose persona id is not in the registry gets the 400 response
  "Unknown persona_id", and the request makes no outbound call: neither the completion
  service nor the speech service is asked, and the world is left as it was.
\<close>

theorem unknown_persona_rejected:
  assumes "\<not> dict_contains PERSONA_NAMES (persona_id inp)"
  shows "chat_endpoint e inp w = (Inl (HTTPException 400 (str ''Unknown persona_id'')), w) \<and>
         status_code (fst (chat_endpoint e inp w)) = 400 \<and>
         calls_since (length (outbound w)) (snd (chat_endpoint e inp w)) = []"
  using assms by (simp add: chat_endpoint_def calls_since_def)

theorem unknown_persona_rejected_witness:
  "\<not> dict_contains PERSONA_NAMES (persona_id napoleon_hello) \<and>
   chat_endpoint env_ok napoleon_hello world0 =
     (Inl (HTTPException 400 (str ''Unknown persona_id'')), world0) \<and>
   status_code (fst (chat_endpoint env_ok napoleon_hello world0)) = 400 \<and>
   calls_since (length (outbound world0)) (snd (chat_endpoint env_ok napoleon_hello world0)) = []"
proof -
  have h: "\<not> dict_contains PERSONA_NAMES (persona_id napoleon_hello)"
    by (simp add: dict_contains_def PERSONA_NAMES_def napoleon_hello_def jan_hello_def)
  show ?thesis using h unknown_persona_rejected [OF h, of env_ok world0] by blast
qed

subsection \<open>Effects of the helpers\<close>

lemma generate_frame:
  "media (snd (generate_chat_reply e pid msg w)) = media w \<and>
   console (snd (generate_chat_reply e pid msg w)) = console w"
  by (simp add: generate_chat_reply_def Let_def split: sum.splits list.splits option.splits)

lemma generate_error_kinds:
  "fst (generate_chat_reply e pid msg w) = Inl err \<Longrightarrow>
     err = IndexError \<or> err = AttributeError \<or> (\<exists>m. err = ExternalError m)"
  by (auto simp add: generate_chat_reply_def Let_def split: sum.splits list.splits option.splits)

lemma tts_try_console:
  "console (snd (tts_try e voice text name w)) = console w"
  by (simp add: tts_try_def stream_to_file_def Let_def split: sum.splits option.splits prod.splits)

lemma tts_try_fails_iff:
  "fst (tts_try e voice text name w) = Inl err \<longleftrightarrow>
     (\<exists>m. err = ExternalError m \<and>
        (speech_create e (str ''gpt-4o-mini-tts'') voice text = Inl m \<or>
         (\<exists>response. speech_create e (str ''gpt-4o-mini-tts'') voice text = Inr response \<and>
            (open_wb e name = Some m \<or> open_wb e name = None \<and> abort response = Some m))))"
  by (auto simp add: tts_try_def stream_to_file_def Let_def split: sum.splits option.splits prod.splits)

lemma tts_try_success:
  assumes "tts_try e voice text name w = (Inr url, w')"
  shows "url = str ''/media/'' @ name \<and>
         (\<exists>response. speech_create e (str ''gpt-4o-mini-tts'') voice text = Inr response \<and>
            open_wb e name = None \<and> abort response = None \<and>
            media w' = (media w)(name \<mapsto> concat (chunks response)))"
  using assms
  by (auto simp add: tts_try_def stream_to_file_def Let_def split: sum.splits option.splits prod.splits)

lemma synthesize_Some:
  assumes "synthesize_tts e text pid w = (Some url, w')"
  shows "tts_try e (dict_get voice_map pid (str ''onyx'')) text (uuid4_hex e @ str ''.wav'') w = (Inr url, w')"
  using assms by (auto simp add: synthesize_tts_def Let_def split: sum.splits prod.splits)

lemma chat_endpoint_audio:
  assumes "chat_endpoint e inp w = (Inr out, w')" and "audio_url out = Some url"
  shows "\<exists>w1. generate_chat_reply e (persona_id inp) (message inp) w = (Inr (reply out), w1) \<and>
           synthesize_tts e (reply out) (persona_id inp) w1 = (Some url, w')"
  using assms
  by (auto simp add: chat_endpoint_def Let_def split: if_splits sum.splits prod.splits)

lemma sample_valid:
  "dict_contains PERSONA_NAMES (persona_id jan_hello)"
  "dict_contains PERSONA_NAMES (persona_id jan_silent)"
  by (simp_all add: dict_contains_def PERSONA_NAMES_def jan_hello_def jan_silent_def)

lemmas eval_defs =
  chat_endpoint_def generate_chat_reply_def synthesize_tts_def tts_try_def stream_to_file_def
  dict_get_def dict_contains_def PERSONA_NAMES_def voice_map_def
  strip_def lstrip_def rstrip_def isspace_def chat_call_def speech_call_def calls_since_def
  is_speech_call_def
  utf8_encodable_def scalar_value_def
  world0_def env_ok_def env_again_def env_down_def env_blank_def env_quota_def env_cut_def
  env_lone_def world_taken_def
  jan_hello_def jan_silent_def napoleon_hello_def

text \<open>
  C2, as amended. For every text and persona id, when the body of the \<open>try\<close>
  statement of \<open>synthesize_tts\<close> raises (the speech call fails, the file cannot be
  opened, or the stream or the write breaks off), the exception is caught: the line
  with the exception and its traceback go to the console and \<open>None\<close> is returned. A
  chat request in which that happens still returns the generated reply with no
  \<open>audio_url\<close>, which is what the same request returns with speech switched off; its
  status is 200 whenever the reply can be encoded, and 500 otherwise, with or without
  the synthesis failure.
\<close>

theorem synthesis_failure_is_soft:
  "(fst (tts_try e (dict_get voice_map pid (str ''onyx'')) t (uuid4_hex e @ str ''.wav'') w0) = Inl err \<longrightarrow>
      fst (synthesize_tts e t pid w0) = None \<and>
      console (snd (synthesize_tts e t pid w0)) =
        console w0 @ [Printed [Text (str ''[TTS FAILED]''), Exc err], Traceback err]) \<and>
   (dict_contains PERSONA_NAMES (persona_id inp) \<and> tts inp \<and>
    generate_chat_reply e (persona_id inp) (message inp) w = (Inr r, w1) \<and>
    fst (tts_try e (dict_get voice_map (persona_id inp) (str ''onyx'')) r
           (uuid4_hex e @ str ''.wav'') w1) = Inl err' \<longrightarrow>
      fst (chat_endpoint e inp w) = Inr \<lparr>reply = r, audio_url = None, avatar = None\<rparr> \<and>
      fst (chat_endpoint e inp w) = fst (chat_endpoint e (inp\<lparr>tts := False\<rparr>) w) \<and>
      status_code (fst (chat_endpoint e inp w)) = (if utf8_encodable r then 200 else 500))"
proof -
  have soft: "fst (synthesize_tts e t pid w0) = None \<and>
      console (snd (synthesize_tts e t pid w0)) =
        console w0 @ [Printed [Text (str ''[TTS FAILED]''), Exc err], Traceback err]"
    if f: "fst (tts_try e (dict_get voice_map pid (str ''onyx'')) t (uuid4_hex e @ str ''.wav'') w0) = Inl err"
    for t pid w0 err
  proof -
    obtain w2 where t: "tts_try e (dict_get voice_map pid (str ''onyx'')) t
                   (uuid4_hex e @ str ''.wav'') w0 = (Inl err, w2)"
      using f by (cases "tts_try e (dict_get voice_map pid (str ''onyx'')) t
                   (uuid4_hex e @ str ''.wav'') w0") simp
    have c: "console w2 = console w0"
      using tts_try_console [of e "dict_get voice_map pid (str ''onyx'')" t
          "uuid4_hex e @ str ''.wav''" w0] t by simp
    show ?thesis using t c by (simp add: synthesize_tts_def Let_def)
  qed
  have chat: "fst (chat_endpoint e inp w) = Inr \<lparr>reply = r, audio_url = None, avatar = None\<rparr> \<and>
      fst (chat_endpoint e inp w) = fst (chat_endpoint e (inp\<lparr>tts := False\<rparr>) w) \<and>
      status_code (fst (chat_endpoint e inp w)) = (if utf8_encodable r then 200 else 500)"
    if valid: "dict_contains PERSONA_NAMES (persona_id inp)" and on: "tts inp"
      and gen: "generate_chat_reply e (persona_id inp) (message inp) w = (Inr r, w1)"
      and f: "fst (tts_try e (dict_get voice_map (persona_id inp) (str ''onyx'')) r
                 (uuid4_hex e @ str ''.wav'') w1) = Inl err'"
  proof -
    have n: "fst (synthesize_tts e r (persona_id inp) w1) = None"
      using soft [OF f] by simp
    have a: "fst (chat_endpoint e inp w) = Inr \<lparr>reply = r, audio_url = None, avatar = None\<rparr>"
      using valid on gen n
      by (cases "synthesize_tts e r (persona_id inp) w1") (simp add: chat_endpoint_def)
    have b: "fst (chat_endpoint e (inp\<lparr>tts := False\<rparr>) w) =
               Inr \<lparr>reply = r, audio_url = None, avatar = None\<rparr>"
      using valid gen by (simp add: chat_endpoint_def)
    show ?thesis using a b by simp
  qed
  from soft chat show ?thesis by blast
qed

text \<open>
  The claim as stated fails: the completion is a lone surrogate and the speech call
  fails; the synthesis failure is caught and the route returns the reply, but the
  request ends with status 500.
\<close>

theorem unencodable_reply_counterexample:
  "dict_contains PERSONA_NAMES (persona_id jan_hello) \<and> tts jan_hello \<and>
   fst (generate_chat_reply env_lone (persona_id jan_hello) (message jan_hello) world0) = Inr [0xD800] \<and>
   fst (synthesize_tts env_lone [0xD800] (persona_id jan_hello)
          (snd (generate_chat_reply env_lone (persona_id jan_hello) (message jan_hello) world0))) = None \<and>
   fst (chat_endpoint env_lone jan_hello world0) =
     Inr \<lparr>reply = [0xD800], audio_url = None, avatar = None\<rparr> \<and>
   status_code (fst (chat_endpoint env_lone jan_hello world0)) = 500"
  by (simp add: eval_defs Let_def)

theorem synthesis_failure_is_soft_witness:
  "fst (tts_try env_quota (str ''onyx'') (str ''Bonjour'') (uuid4_hex env_quota @ str ''.wav'') world0) =
     Inl (ExternalError (str ''quota exceeded'')) \<and>
   fst (synthesize_tts env_quota (str ''Bonjour'') (str ''napoleon'') world0) = None \<and>
   console (snd (synthesize_tts env_quota (str ''Bonjour'') (str ''napoleon'') world0)) =
     [Printed [Text (str ''[TTS FAILED]''), Exc (ExternalError (str ''quota exceeded''))],
      Traceback (ExternalError (str ''quota exceeded''))] \<and>
   dict_contains PERSONA_NAMES (persona_id jan_hello) \<and> tts jan_hello \<and>
   generate_chat_reply env_quota (persona_id jan_hello) (message jan_hello) world0 =
     (Inr (str ''Goeie dag.''), world0\<lparr>outbound := [chat_call (str ''Jan du Preez'') (str ''Hello'')]\<rparr>) \<and>
   fst (chat_endpoint env_quota jan_hello world0) =
     Inr \<lparr>reply = str ''Goeie dag.'', audio_url = None, avatar = None\<rparr> \<and>
   fst (chat_endpoint env_quota jan_hello world0) = fst (chat_endpoint env_quota jan_silent world0) \<and>
   utf8_encodable (str ''Goeie dag.'') \<and>
   status_code (fst (chat_endpoint env_quota jan_hello world0)) = 200"
proof -
  let ?w1 = "world0\<lparr>outbound := [chat_call (str ''Jan du Preez'') (str ''Hello'')]\<rparr>"
  let ?err = "ExternalError (str ''quota exceeded'')"
  have v: "dict_get voice_map (str ''napoleon'') (str ''onyx'') = str ''onyx''"
    "dict_get voice_map (persona_id jan_hello) (str ''onyx'') = str ''onyx''"
    by (simp_all add: dict_get_def voice_map_def jan_hello_def)
  have f0: "fst (tts_try env_quota (dict_get voice_map (str ''napoleon'') (str ''onyx''))
             (str ''Bonjour'') (uuid4_hex env_quota @ str ''.wav'') world0) = Inl ?err"
    by (simp add: tts_try_def env_quota_def env_ok_def)
  have o: "tts jan_hello" by (simp add: jan_hello_def)
  have g: "generate_chat_reply env_quota (persona_id jan_hello) (message jan_hello) world0 =
     (Inr (str ''Goeie dag.''), ?w1)"
    by (simp add: generate_chat_reply_def env_quota_def env_ok_def jan_hello_def world0_def
        chat_call_def dict_get_def PERSONA_NAMES_def strip_def lstrip_def rstrip_def isspace_def str_def)
  have f1: "fst (tts_try env_quota (dict_get voice_map (persona_id jan_hello) (str ''onyx''))
             (str ''Goeie dag.'') (uuid4_hex env_quota @ str ''.wav'') ?w1) = Inl ?err"
    by (simp add: tts_try_def env_quota_def env_ok_def)
  have u: "utf8_encodable (str ''Goeie dag.'')"
    by (simp add: utf8_encodable_def scalar_value_def str_def)
  have s: "jan_hello\<lparr>tts := False\<rparr> = jan_silent" by (simp add: jan_silent_def)
  have c: "console world0 = []" by (simp add: world0_def)
  note T = synthesis_failure_is_soft [of env_quota "str ''napoleon''" "str ''Bonjour''" world0
      ?err jan_hello world0 "str ''Goeie dag.''" ?w1 ?err]
  have A: "fst (synthesize_tts env_quota (str ''Bonjour'') (str ''napoleon'') world0) = None \<and>
     console (snd (synthesize_tts env_quota (str ''Bonjour'') (str ''napoleon'') world0)) =
       console world0 @ [Printed [Text (str ''[TTS FAILED]''), Exc ?err], Traceback ?err]"
    by (rule T [THEN conjunct1, THEN mp]) (fact f0)
  have B: "fst (chat_endpoint env_quota jan_hello world0) =
      Inr \<lparr>reply = str ''Goeie dag.'', audio_url = None, avatar = None\<rparr> \<and>
    fst (chat_endpoint env_quota jan_hello world0) =
      fst (chat_endpoint env_quota (jan_hello\<lparr>tts := False\<rparr>) world0) \<and>
    status_code (fst (chat_endpoint env_quota jan_hello world0)) =
      (if utf8_encodable (str ''Goeie dag.'') then 200 else 500)"
    by (rule T [THEN conjunct2, THEN mp]) (use sample_valid(1) o g f1 in blast)
  have f0': "fst (tts_try env_quota (str ''onyx'') (str ''Bonjour'')
               (uuid4_hex env_quota @ str ''.wav'') world0) = Inl ?err"
    using f0 [unfolded v] .
  have A1: "fst (synthesize_tts env_quota (str ''Bonjour'') (str ''napoleon'') world0) = None"
    using A by blast
  have A2: "console (snd (synthesize_tts env_quota (str ''Bonjour'') (str ''napoleon'') world0)) =
       [Printed [Text (str ''[TTS FAILED]''), Exc ?err], Traceback ?err]"
    using A [unfolded c append_Nil] by blast
  have B1: "fst (chat_endpoint env_quota jan_hello world0) =
      Inr \<lparr>reply = str ''Goeie dag.'', audio_url = None, avatar = None\<rparr>"
    using B by blast
  have B2: "fst (chat_endpoint env_quota jan_hello world0) = fst (chat_endpoint env_quota jan_silent world0)"
    using B [unfolded s] by blast
  have B3: "status_code (fst (chat_endpoint env_quota jan_hello world0)) = 200"
    using B [unfolded s] u by auto
  from f0' A1 A2 sample_valid(1) o g B1 B2 B3 u show ?thesis by blast
qed

text \<open>
  C3. For a registered persona, when reply generation fails the exception leaves
  \<open>chat_endpoint\<close> unchanged, so the response is a 500 with no reply; the only outbound
  call of the request is the completion call, the speech service is never asked, and
  no file is written.
\<close>

theorem reply_failure_propagates:
  assumes valid: "dict_contains PERSONA_NAMES (persona_id inp)"
    and fail: "fst (generate_chat_reply e (persona_id inp) (message inp) w) = Inl err"
  shows "fst (chat_endpoint e inp w) = Inl err \<and>
         status_code (fst (chat_endpoint e inp w)) = 500 \<and>
         calls_since (length (outbound w)) (snd (chat_endpoint e inp w)) =
           [chat_call (dict_get PERSONA_NAMES (persona_id inp) (str ''Unknown persona'')) (message inp)] \<and>
         \<not> list_ex is_speech_call (calls_since (length (outbound w)) (snd (chat_endpoint e inp w))) \<and>
         media (snd (chat_endpoint e inp w)) = media w"
proof -
  obtain res w1 where g: "generate_chat_reply e (persona_id inp) (message inp) w = (res, w1)"
    by (cases "generate_chat_reply e (persona_id inp) (message inp) w")
  with fail have res: "res = Inl err" by simp
  have ce: "chat_endpoint e inp w = (Inl err, w1)"
    using valid g res by (simp add: chat_endpoint_def)
  have ob: "outbound w1 = outbound w @
      [chat_call (dict_get PERSONA_NAMES (persona_id inp) (str ''Unknown persona'')) (message inp)]"
    using generate_outbound [of e "persona_id inp" "message inp" w] g by simp
  have md: "media w1 = media w"
    using generate_frame [of e "persona_id inp" "message inp" w] g by simp
  have st: "status_code (Inl err :: exn + ChatOutput) = 500"
    using generate_error_kinds [OF fail] by auto
  show ?thesis using ce ob md st by (simp add: is_speech_call_def calls_since_def chat_call_def)
qed

theorem reply_failure_propagates_witness:
  "dict_contains PERSONA_NAMES (persona_id jan_hello) \<and>
   fst (generate_chat_reply env_down (persona_id jan_hello) (message jan_hello) world0) =
     Inl (ExternalError (str ''connection refused'')) \<and>
   fst (chat_endpoint env_down jan_hello world0) = Inl (ExternalError (str ''connection refused'')) \<and>
   status_code (fst (chat_endpoint env_down jan_hello world0)) = 500 \<and>
   calls_since 0 (snd (chat_endpoint env_down jan_hello world0)) =
     [chat_call (str ''Jan du Preez'') (str ''Hello'')] \<and>
   media (snd (chat_endpoint env_down jan_hello world0)) = Map.empty"
proof -
  have f: "fst (generate_chat_reply env_down (persona_id jan_hello) (message jan_hello) world0) =
     Inl (ExternalError (str ''connection refused''))"
    by (simp add: generate_chat_reply_def env_down_def env_ok_def)
  have n: "dict_get PERSONA_NAMES (persona_id jan_hello) (str ''Unknown persona'') = str ''Jan du Preez''"
    by (simp add: dict_get_def PERSONA_NAMES_def jan_hello_def)
  show ?thesis
    using sample_valid(1) f reply_failure_propagates [OF sample_valid(1) f] n
    by (simp add: world0_def jan_hello_def)
qed

text \<open>
  C4. Whenever a chat response carries an \<open>audio_url\<close>, it is \<open>/media/\<close> followed by
  the token drawn in this request and \<open>.wav\<close>, and when the response is returned the
  media directory holds a file of that name whose content is the whole body the speech
  service streamed.
\<close>

theorem audio_url_names_written_file:
  assumes "chat_endpoint e inp w = (Inr out, w')" and "audio_url out = Some url"
  shows "url = str ''/media/'' @ uuid4_hex e @ str ''.wav'' \<and>
         (\<exists>response.
            speech_create e (str ''gpt-4o-mini-tts'')
              (dict_get voice_map (persona_id inp) (str ''onyx'')) (reply out) = Inr response \<and>
            abort response = None \<and>
            media w' (uuid4_hex e @ str ''.wav'') = Some (concat (chunks response)))"
proof -
  from chat_endpoint_audio [OF assms] obtain w1 where
    syn: "synthesize_tts e (reply out) (persona_id inp) w1 = (Some url, w')" by blast
  from tts_try_success [OF synthesize_Some [OF syn]] show ?thesis by auto
qed

theorem audio_url_names_written_file_witness:
  "chat_endpoint env_ok jan_hello world0 =
     (Inr \<lparr>reply = str ''Goeie dag.'',
           audio_url = Some (str ''/media/0123456789abcdef0123456789abcdef.wav''), avatar = None\<rparr>,
      \<lparr>media = [str ''0123456789abcdef0123456789abcdef.wav'' \<mapsto> [0x52, 0x49, 0x46, 0x46]],
       outbound = [chat_call (str ''Jan du Preez'') (str ''Hello''),
                   speech_call (str ''onyx'') (str ''Goeie dag.'')],
       console = []\<rparr>) \<and>
   (\<exists>response.
      speech_create env_ok (str ''gpt-4o-mini-tts'') (str ''onyx'') (str ''Goeie dag.'') = Inr response \<and>
      abort response = None \<and>
      concat (chunks response) = [0x52, 0x49, 0x46, 0x46])"
proof -
  have c: "chat_endpoint env_ok jan_hello world0 =
     (Inr \<lparr>reply = str ''Goeie dag.'',
           audio_url = Some (str ''/media/0123456789abcdef0123456789abcdef.wav''), avatar = None\<rparr>,
      \<lparr>media = [str ''0123456789abcdef0123456789abcdef.wav'' \<mapsto> [0x52, 0x49, 0x46, 0x46]],
       outbound = [chat_call (str ''Jan du Preez'') (str ''Hello''),
                   speech_call (str ''onyx'') (str ''Goeie dag.'')],
       console = []\<rparr>)"
    by (simp add: eval_defs Let_def str_def)
  have a: "audio_url \<lparr>reply = str ''Goeie dag.'',
           audio_url = Some (str ''/media/0123456789abcdef0123456789abcdef.wav''), avatar = None\<rparr> =
        Some (str ''/media/0123456789abcdef0123456789abcdef.wav'')" by simp
  have v: "dict_get voice_map (persona_id jan_hello) (str ''onyx'') = str ''onyx''"
    by (simp add: dict_get_def voice_map_def jan_hello_def)
  show ?thesis
    using c audio_url_names_written_file [OF c a] v
    by (simp add: env_ok_def)
qed

subsection \<open>Requests without speech, and repeated requests\<close>

text \<open>
  C7. For a registered persona and \<open>tts = false\<close> the speech synthesizer is not
  invoked: the request's only outbound call is the completion call, no file of the
  media directory is written, and a returned response has no \<open>audio_url\<close>.
\<close>

theorem no_tts_no_synthesis:
  assumes valid: "dict_contains PERSONA_NAMES (persona_id inp)" and off: "\<not> tts inp"
  shows "calls_since (length (outbound w)) (snd (chat_endpoint e inp w)) =
           [chat_call (dict_get PERSONA_NAMES (persona_id inp) (str ''Unknown persona'')) (message inp)] \<and>
         \<not> list_ex is_speech_call (calls_since (length (outbound w)) (snd (chat_endpoint e inp w))) \<and>
         media (snd (chat_endpoint e inp w)) = media w \<and>
         (case fst (chat_endpoint e inp w) of Inr out \<Rightarrow> audio_url out = None | Inl err \<Rightarrow> True)"
proof -
  obtain res w1 where g: "generate_chat_reply e (persona_id inp) (message inp) w = (res, w1)"
    by (cases "generate_chat_reply e (persona_id inp) (message inp) w")
  have w1: "snd (chat_endpoint e inp w) = w1"
    using valid off g by (cases res) (simp_all add: chat_endpoint_def)
  have au: "case fst (chat_endpoint e inp w) of Inr out \<Rightarrow> audio_url out = None | Inl err \<Rightarrow> True"
    using valid off g by (cases res) (simp_all add: chat_endpoint_def)
  have ob: "outbound w1 = outbound w @
      [chat_call (dict_get PERSONA_NAMES (persona_id inp) (str ''Unknown persona'')) (message inp)]"
    using generate_outbound [of e "persona_id inp" "message inp" w] g by simp
  have md: "media w1 = media w"
    using generate_frame [of e "persona_id inp" "message inp" w] g by simp
  show ?thesis using w1 au ob md by (simp add: is_speech_call_def calls_since_def chat_call_def)
qed

theorem no_tts_no_synthesis_witness:
  "dict_contains PERSONA_NAMES (persona_id jan_silent) \<and> \<not> tts jan_silent \<and>
   fst (chat_endpoint env_ok jan_silent world0) =
     Inr \<lparr>reply = str ''Goeie dag.'', audio_url = None, avatar = None\<rparr> \<and>
   calls_since 0 (snd (chat_endpoint env_ok jan_silent world0)) =
     [chat_call (str ''Jan du Preez'') (str ''Hello'')] \<and>
   media (snd (chat_endpoint env_ok jan_silent world0)) = Map.empty"
proof -
  have o: "\<not> tts jan_silent" by (simp add: jan_silent_def jan_hello_def)
  have r: "fst (chat_endpoint env_ok jan_silent world0) =
     Inr \<lparr>reply = str ''Goeie dag.'', audio_url = None, avatar = None\<rparr>"
    by (simp add: eval_defs Let_def str_def)
  have n: "dict_get PERSONA_NAMES (persona_id jan_silent) (str ''Unknown persona'') = str ''Jan du Preez''"
    by (simp add: dict_get_def PERSONA_NAMES_def jan_silent_def jan_hello_def)
  show ?thesis
    using sample_valid(2) o r no_tts_no_synthesis [OF sample_valid(2) o, of world0 env_ok] n
    by (simp add: world0_def jan_silent_def jan_hello_def)
qed




subsection \<open>Trimming\<close>

lemma strip_eq_Nil_iff: "strip s = [] \<longleftrightarrow> (\<forall>c \<in> set s. isspace c)"
proof -
  have "strip s = [] \<longleftrightarrow> dropWhile isspace (rev (dropWhile isspace s)) = []"
    by (simp add: strip_def rstrip_def lstrip_def)
  also have "\<dots> \<longleftrightarrow> (\<forall>c \<in> set (dropWhile isspace s). isspace c)"
    by simp
  also have "\<dots> \<longleftrightarrow> dropWhile isspace s = []"
  proof
    assume a: "\<forall>c \<in> set (dropWhile isspace s). isspace c"
    show "dropWhile isspace s = []"
    proof (rule ccontr)
      assume n: "dropWhile isspace s \<noteq> []"
      then have "\<not> isspace (hd (dropWhile isspace s))" by (rule hd_dropWhile)
      moreover have "hd (dropWhile isspace s) \<in> set (dropWhile isspace s)" using n by simp
      ultimately show False using a by blast
    qed
  qed (auto dest: set_dropWhileD)
  also have "\<dots> \<longleftrightarrow> (\<forall>c \<in> set s. isspace c)"
    by simp
  finally show ?thesis .
qed

lemma strip_surroundings:
  "s = takeWhile isspace s @ strip s @ rev (takeWhile isspace (rev (lstrip s)))"
proof -
  have "lstrip s = rev (rev (lstrip s))" by simp
  also have "\<dots> = rev (takeWhile isspace (rev (lstrip s)) @ dropWhile isspace (rev (lstrip s)))"
    by (simp only: takeWhile_dropWhile_id)
  also have "\<dots> = strip s @ rev (takeWhile isspace (rev (lstrip s)))"
    by (simp only: rev_append strip_def rstrip_def)
  finally have "lstrip s = strip s @ rev (takeWhile isspace (rev (lstrip s)))" .
  moreover have "s = takeWhile isspace s @ lstrip s"
    by (simp add: lstrip_def)
  ultimately show ?thesis by simp
qed

lemma strip_ends:
  assumes "strip s \<noteq> []"
  shows "\<not> isspace (hd (strip s)) \<and> \<not> isspace (last (strip s))"
proof -
  let ?t = "lstrip s"
  have t: "?t = strip s @ rev (takeWhile isspace (rev ?t))"
    using strip_surroundings [of s]
    by (simp add: lstrip_def) (metis takeWhile_dropWhile_id same_append_eq)
  have tn: "?t \<noteq> []" using assms t by auto
  have "hd ?t = hd (strip s)" using t assms by (metis hd_append2)
  moreover have "\<not> isspace (hd ?t)" using tn unfolding lstrip_def by (rule hd_dropWhile)
  ultimately have h: "\<not> isspace (hd (strip s))" by simp
  have d: "dropWhile isspace (rev ?t) \<noteq> []" using assms by (simp add: strip_def rstrip_def)
  have "last (strip s) = hd (dropWhile isspace (rev ?t))"
    using d by (simp add: strip_def rstrip_def last_rev)
  moreover have "\<not> isspace (hd (dropWhile isspace (rev ?t)))" using d by (rule hd_dropWhile)
  ultimately show ?thesis using h by simp
qed

lemma generate_success:
  assumes "fst (generate_chat_reply e pid msg w) = Inr r"
  shows "\<exists>chat content rest.
           completions_create e (str ''gpt-4o-mini'')
             [Message (str ''system'') (system_prompt (dict_get PERSONA_NAMES pid (str ''Unknown persona''))),
              Message (str ''user'') msg] = Inr chat \<and>
           choices chat = Some content # rest \<and> r = strip content"
  using assms
  by (auto simp add: generate_chat_reply_def Let_def split: sum.splits list.splits option.splits)

lemma chat_endpoint_reply:
  assumes "fst (chat_endpoint e inp w) = Inr out"
  shows "fst (generate_chat_reply e (persona_id inp) (message inp) w) = Inr (reply out)"
  using assms
  by (auto simp add: chat_endpoint_def Let_def split: if_splits sum.splits prod.splits)

text \<open>
  C5, as amended. In every successful chat response the reply is the text content of
  the first choice of the completion with the surrounding whitespace removed: the
  content is whitespace, then the reply, then whitespace, and a reply that is not empty
  neither starts nor ends with whitespace. The reply is empty exactly when the content
  consists of whitespace only; the endpoint does not reject that case.
\<close>

theorem reply_is_trimmed_completion:
  assumes "fst (chat_endpoint e inp w) = Inr out"
  shows "\<exists>chat content rest.
           completions_create e (str ''gpt-4o-mini'')
             [Message (str ''system'')
                (system_prompt (dict_get PERSONA_NAMES (persona_id inp) (str ''Unknown persona''))),
              Message (str ''user'') (message inp)] = Inr chat \<and>
           choices chat = Some content # rest \<and>
           reply out = strip content \<and>
           (\<exists>before after. content = before @ reply out @ after \<and>
              list_all isspace before \<and> list_all isspace after) \<and>
           (reply out \<noteq> [] \<longrightarrow> \<not> isspace (hd (reply out)) \<and> \<not> isspace (last (reply out))) \<and>
           (reply out = [] \<longleftrightarrow> list_all isspace content)"
proof -
  from generate_success [OF chat_endpoint_reply [OF assms]] obtain chat content rest where
    c: "completions_create e (str ''gpt-4o-mini'')
             [Message (str ''system'')
                (system_prompt (dict_get PERSONA_NAMES (persona_id inp) (str ''Unknown persona''))),
              Message (str ''user'') (message inp)] = Inr chat"
    and ch: "choices chat = Some content # rest" and r: "reply out = strip content"
    by blast
  have s: "content = takeWhile isspace content @ reply out @
             rev (takeWhile isspace (rev (lstrip content)))"
    using strip_surroundings [of content] r by simp
  have b: "list_all isspace (takeWhile isspace content)"
    by (simp add: list_all_iff) (meson set_takeWhileD)
  have a: "list_all isspace (rev (takeWhile isspace (rev (lstrip content))))"
    by (simp add: list_all_iff) (meson set_takeWhileD)
  have e: "reply out = [] \<longleftrightarrow> list_all isspace content"
    using strip_eq_Nil_iff [of content] r by (simp add: list_all_iff)
  have n: "reply out \<noteq> [] \<longrightarrow> \<not> isspace (hd (reply out)) \<and> \<not> isspace (last (reply out))"
    using strip_ends [of content] r by simp
  from c ch r s a b e n show ?thesis by blast
qed

text \<open>
  The claim as stated fails: a completion whose content is three spaces gives a 200
  response with an empty reply.
\<close>

theorem empty_reply_counterexample:
  "fst (chat_endpoint env_blank jan_silent world0) =
     Inr \<lparr>reply = [], audio_url = None, avatar = None\<rparr> \<and>
   status_code (fst (chat_endpoint env_blank jan_silent world0)) = 200"
  by (simp add: eval_defs Let_def str_def)

theorem reply_is_trimmed_completion_witness:
  "fst (chat_endpoint env_ok jan_silent world0) =
     Inr \<lparr>reply = str ''Goeie dag.'', audio_url = None, avatar = None\<rparr> \<and>
   (\<exists>chat content rest.
      completions_create env_ok (str ''gpt-4o-mini'')
        [Message (str ''system'') (system_prompt (str ''Jan du Preez'')),
         Message (str ''user'') (str ''Hello'')] = Inr chat \<and>
      choices chat = Some content # rest \<and>
      str ''Goeie dag.'' = strip content \<and>
      (\<exists>before after. content = before @ str ''Goeie dag.'' @ after \<and>
         list_all isspace before \<and> list_all isspace after))"
proof -
  have r: "fst (chat_endpoint env_ok jan_silent world0) =
     Inr \<lparr>reply = str ''Goeie dag.'', audio_url = None, avatar = None\<rparr>"
    by (simp add: eval_defs Let_def str_def)
  have n: "dict_get PERSONA_NAMES (persona_id jan_silent) (str ''Unknown persona'') = str ''Jan du Preez''"
    by (simp add: dict_get_def PERSONA_NAMES_def jan_silent_def jan_hello_def)
  have m: "message jan_silent = str ''Hello''" by (simp add: jan_silent_def jan_hello_def)
  show ?thesis
    using r reply_is_trimmed_completion [OF r] n m by simp blast
qed

subsection \<open>Files written by the synthesizer\<close>

lemma tts_try_media:
  "media (snd (tts_try e voice text name w)) =
     (case speech_create e (str ''gpt-4o-mini-tts'') voice text of
        Inl m \<Rightarrow> media w
      | Inr response \<Rightarrow>
          (case open_wb e name of
             Some m \<Rightarrow> media w
           | None \<Rightarrow> (media w)(name \<mapsto> concat (chunks response))))"
  by (simp add: tts_try_def stream_to_file_def Let_def split: sum.splits option.splits prod.splits)

lemma synthesize_media:
  "media (snd (synthesize_tts e text pid w)) =
     media (snd (tts_try e (dict_get voice_map pid (str ''onyx'')) text (uuid4_hex e @ str ''.wav'') w))"
  by (simp add: synthesize_tts_def Let_def split: sum.splits prod.splits)

lemma synthesize_None_iff:
  "fst (synthesize_tts e text pid w) = None \<longleftrightarrow>
     (\<exists>err. fst (tts_try e (dict_get voice_map pid (str ''onyx'')) text (uuid4_hex e @ str ''.wav'') w) = Inl err)"
  by (auto simp add: synthesize_tts_def Let_def split: sum.splits prod.splits)

text \<open>
  C6, as amended. A successful call of the speech synthesizer writes exactly one file
  of the media directory, the one named by its token, with the whole streamed body:
  exactly one new file when no file of that name was there, and no new file (the old
  one is overwritten) when there was one. A call that fails before the output file is
  opened (the speech request raises, or the file cannot be opened) writes nothing. A
  call that fails while the body is streamed leaves the file with the part written so
  far.
\<close>

theorem synthesize_file_effect:
  "(\<forall>url. fst (synthesize_tts e t pid w) = Some url \<longrightarrow>
      (\<exists>response.
         speech_create e (str ''gpt-4o-mini-tts'') (dict_get voice_map pid (str ''onyx'')) t = Inr response \<and>
         abort response = None \<and>
         media (snd (synthesize_tts e t pid w)) =
           (media w)(uuid4_hex e @ str ''.wav'' \<mapsto> concat (chunks response))) \<and>
      (uuid4_hex e @ str ''.wav'' \<notin> dom (media w) \<longrightarrow>
         dom (media (snd (synthesize_tts e t pid w))) - dom (media w) = {uuid4_hex e @ str ''.wav''}) \<and>
      (uuid4_hex e @ str ''.wav'' \<in> dom (media w) \<longrightarrow>
         dom (media (snd (synthesize_tts e t pid w))) = dom (media w))) \<and>
   ((\<exists>m. speech_create e (str ''gpt-4o-mini-tts'') (dict_get voice_map pid (str ''onyx'')) t = Inl m) \<or>
    (\<exists>m. open_wb e (uuid4_hex e @ str ''.wav'') = Some m) \<longrightarrow>
      fst (synthesize_tts e t pid w) = None \<and>
      media (snd (synthesize_tts e t pid w)) = media w) \<and>
   (\<forall>response m.
      speech_create e (str ''gpt-4o-mini-tts'') (dict_get voice_map pid (str ''onyx'')) t = Inr response \<and>
      open_wb e (uuid4_hex e @ str ''.wav'') = None \<and> abort response = Some m \<longrightarrow>
      fst (synthesize_tts e t pid w) = None \<and>
      media (snd (synthesize_tts e t pid w)) =
        (media w)(uuid4_hex e @ str ''.wav'' \<mapsto> concat (chunks response)))"
proof -
  let ?voice = "dict_get voice_map pid (str ''onyx'')"
  let ?name = "uuid4_hex e @ str ''.wav''"
  let ?after = "media (snd (synthesize_tts e t pid w))"
  have ok: "(\<exists>response.
         speech_create e (str ''gpt-4o-mini-tts'') ?voice t = Inr response \<and>
         abort response = None \<and>
         ?after = (media w)(?name \<mapsto> concat (chunks response))) \<and>
      (?name \<notin> dom (media w) \<longrightarrow> dom ?after - dom (media w) = {?name}) \<and>
      (?name \<in> dom (media w) \<longrightarrow> dom ?after = dom (media w))"
    if s: "fst (synthesize_tts e t pid w) = Some url" for url
  proof -
    obtain w' where "synthesize_tts e t pid w = (Some url, w')"
      using s by (cases "synthesize_tts e t pid w") simp
    from tts_try_success [OF synthesize_Some [OF this]] this obtain response where
      r: "speech_create e (str ''gpt-4o-mini-tts'') ?voice t = Inr response"
        "abort response = None"
        "?after = (media w)(?name \<mapsto> concat (chunks response))"
      by auto
    from r(3) have "?name \<notin> dom (media w) \<longrightarrow> dom ?after - dom (media w) = {?name}"
      and "?name \<in> dom (media w) \<longrightarrow> dom ?after = dom (media w)"
      by auto
    with r show ?thesis by blast
  qed
  have early: "fst (synthesize_tts e t pid w) = None \<and> ?after = media w"
    if "(\<exists>m. speech_create e (str ''gpt-4o-mini-tts'') ?voice t = Inl m) \<or>
        (\<exists>m. open_wb e ?name = Some m)"
    using that
    by (auto simp add: synthesize_None_iff tts_try_fails_iff synthesize_media tts_try_media
        split: sum.splits option.splits)
  have late: "fst (synthesize_tts e t pid w) = None \<and>
      ?after = (media w)(?name \<mapsto> concat (chunks response))"
    if "speech_create e (str ''gpt-4o-mini-tts'') ?voice t = Inr response \<and>
        open_wb e ?name = None \<and> abort response = Some m" for response m
    using that
    by (auto simp add: synthesize_None_iff tts_try_fails_iff synthesize_media tts_try_media)
  from ok early late show ?thesis by blast
qed

text \<open>
  The claim as stated fails in both halves. When the stream breaks off after the first
  chunk the call fails, and the file, absent before, is there with that chunk. And when
  the token names a file that is already there the call succeeds, the old content is
  replaced, and the directory has no new file.
\<close>

theorem file_written_counterexample:
  "fst (synthesize_tts env_cut (str ''Goeie dag.'') (str ''boer_commando_jan_du_preez'') world0) = None \<and>
   media world0 (str ''0123456789abcdef0123456789abcdef.wav'') = None \<and>
   media (snd (synthesize_tts env_cut (str ''Goeie dag.'') (str ''boer_commando_jan_du_preez'') world0))
     (str ''0123456789abcdef0123456789abcdef.wav'') = Some [0x52, 0x49] \<and>
   fst (synthesize_tts env_ok (str ''Goeie dag.'') (str ''boer_commando_jan_du_preez'') world_taken) =
     Some (str ''/media/0123456789abcdef0123456789abcdef.wav'') \<and>
   media world_taken (str ''0123456789abcdef0123456789abcdef.wav'') = Some [0x00] \<and>
   media (snd (synthesize_tts env_ok (str ''Goeie dag.'') (str ''boer_commando_jan_du_preez'') world_taken))
     (str ''0123456789abcdef0123456789abcdef.wav'') = Some [0x52, 0x49, 0x46, 0x46] \<and>
   dom (media (snd (synthesize_tts env_ok (str ''Goeie dag.'') (str ''boer_commando_jan_du_preez'') world_taken))) =
     dom (media world_taken)"
  by (simp add: eval_defs Let_def str_def)

theorem synthesize_file_effect_witness:
  "fst (synthesize_tts env_ok (str ''Goeie dag.'') (str ''boer_commando_jan_du_preez'') world0) =
     Some (str ''/media/0123456789abcdef0123456789abcdef.wav'') \<and>
   str ''0123456789abcdef0123456789abcdef.wav'' \<notin> dom (media world0) \<and>
   media (snd (synthesize_tts env_ok (str ''Goeie dag.'') (str ''boer_commando_jan_du_preez'') world0)) =
     [str ''0123456789abcdef0123456789abcdef.wav'' \<mapsto> [0x52, 0x49, 0x46, 0x46]] \<and>
   dom (media (snd (synthesize_tts env_ok (str ''Goeie dag.'') (str ''boer_commando_jan_du_preez'') world0))) -
     dom (media world0) = {str ''0123456789abcdef0123456789abcdef.wav''} \<and>
   fst (synthesize_tts env_ok (str ''Goeie dag.'') (str ''boer_commando_jan_du_preez'') world_taken) =
     Some (str ''/media/0123456789abcdef0123456789abcdef.wav'') \<and>
   str ''0123456789abcdef0123456789abcdef.wav'' \<in> dom (media world_taken) \<and>
   dom (media (snd (synthesize_tts env_ok (str ''Goeie dag.'') (str ''boer_commando_jan_du_preez'') world_taken))) =
     dom (media world_taken) \<and>
   speech_create env_quota (str ''gpt-4o-mini-tts'') (str ''onyx'') (str ''Goeie dag.'') =
     Inl (str ''quota exceeded'') \<and>
   fst (synthesize_tts env_quota (str ''Goeie dag.'') (str ''boer_commando_jan_du_preez'') world0) = None \<and>
   media (snd (synthesize_tts env_quota (str ''Goeie dag.'') (str ''boer_commando_jan_du_preez'') world0)) =
     Map.empty \<and>
   fst (synthesize_tts env_cut (str ''Goeie dag.'') (str ''boer_commando_jan_du_preez'') world0) = None \<and>
   media (snd (synthesize_tts env_cut (str ''Goeie dag.'') (str ''boer_commando_jan_du_preez'') world0)) =
     [str ''0123456789abcdef0123456789abcdef.wav'' \<mapsto> [0x52, 0x49]]"
proof -
  let ?t = "str ''Goeie dag.''" and ?p = "str ''boer_commando_jan_du_preez''"
  let ?n = "str ''0123456789abcdef0123456789abcdef.wav''"
  have v: "dict_get voice_map ?p (str ''onyx'') = str ''onyx''"
    by (simp add: dict_get_def voice_map_def)
  have s: "fst (synthesize_tts env_ok ?t ?p world0) =
     Some (str ''/media/0123456789abcdef0123456789abcdef.wav'')"
    by (simp add: eval_defs Let_def str_def)
  have s': "fst (synthesize_tts env_ok ?t ?p world_taken) =
     Some (str ''/media/0123456789abcdef0123456789abcdef.wav'')"
    by (simp add: eval_defs Let_def str_def)
  have r: "speech_create env_ok (str ''gpt-4o-mini-tts'') (str ''onyx'') ?t =
      Inr \<lparr>chunks = [[0x52, 0x49], [0x46, 0x46]], abort = None\<rparr>"
    by (simp add: env_ok_def)
  have q: "speech_create env_quota (str ''gpt-4o-mini-tts'') (str ''onyx'') ?t = Inl (str ''quota exceeded'')"
    by (simp add: env_quota_def env_ok_def)
  have c: "speech_create env_cut (str ''gpt-4o-mini-tts'') (str ''onyx'') ?t =
      Inr \<lparr>chunks = [[0x52, 0x49]], abort = Some (str ''connection reset'')\<rparr> \<and>
      open_wb env_cut ?n = None \<and>
      abort \<lparr>chunks = [[0x52, 0x49]], abort = Some (str ''connection reset'')\<rparr> = Some (str ''connection reset'')"
    by (simp add: env_cut_def env_ok_def)
  have u: "uuid4_hex env_ok @ str ''.wav'' = ?n" "uuid4_hex env_cut @ str ''.wav'' = ?n"
    by (simp_all add: env_ok_def env_cut_def str_def)
  have m: "media world0 = Map.empty" "dom (media world0) = {}" "?n \<notin> dom (media world0)"
    by (simp_all add: world0_def)
  have k: "?n \<in> dom (media world_taken)"
    by (simp add: world_taken_def world0_def)
  note T0 = synthesize_file_effect [of env_ok ?t ?p world0, unfolded u v]
  note T1 = synthesize_file_effect [of env_ok ?t ?p world_taken, unfolded u v]
  note T2 = synthesize_file_effect [of env_quota ?t ?p world0, unfolded v]
  note T3 = synthesize_file_effect [of env_cut ?t ?p world0, unfolded u v]
  have fresh: "media (snd (synthesize_tts env_ok ?t ?p world0)) = [?n \<mapsto> [0x52, 0x49, 0x46, 0x46]]"
    "dom (media (snd (synthesize_tts env_ok ?t ?p world0))) - dom (media world0) = {?n}"
    using T0 s r m by auto
  have taken: "dom (media (snd (synthesize_tts env_ok ?t ?p world_taken))) = dom (media world_taken)"
    using T1 s' k by blast
  have early: "fst (synthesize_tts env_quota ?t ?p world0) = None"
    "media (snd (synthesize_tts env_quota ?t ?p world0)) = Map.empty"
    using T2 q m by auto
  have late: "fst (synthesize_tts env_cut ?t ?p world0) = None"
    "media (snd (synthesize_tts env_cut ?t ?p world0)) = [?n \<mapsto> [0x52, 0x49]]"
    using T3 c m by auto
  from s m(3) fresh s' k taken q early late show ?thesis by blast
qed

subsection \<open>The corpus filter\<close>




lemma update_personas_raises:
  "filter_personas stored = Inl err \<Longrightarrow> update_personas stored = (Some err, Document stored)"
  by (simp add: update_personas_def)

lemma update_personas_file:
  "snd (update_personas stored) = Fragment \<longleftrightarrow>
     (\<exists>corpus. filter_personas stored = Inr corpus \<and> \<not> dumpable corpus)"
  by (simp add: update_personas_def split: sum.splits)





end
